theory Spec2Isabelle
  imports Main "HOL-Library.Multiset"
begin

section \<open>Values, exceptions and dictionaries\<close>

text \<open>
  The values a database row holds are scalars: \<open>None\<close>, integers and strings. All
  three are hashable, and Python's \<open>==\<close> on them is structural equality, so they can
  serve as dictionary keys in \<open>hash_map\<close>.
\<close>

datatype cell = CNone | CInt int | CStr string

type_synonym row = "cell list"

text \<open>
  Exceptions are values. \<open>SQLAlchemyError\<close> stands for the library's error class and
  all its subclasses; it carries \<open>str(e)\<close> and \<open>e.code\<close>. The class
  \<open>DataSourceError\<close> is imported by the sources from a module that is not part of
  them; only its constructor is used, so it is kept as the message followed by the
  remaining positional arguments exactly as the caller passes them.
\<close>

datatype exn =
    SQLAlchemyError string "string option"
  | DataSourceError string "exn_arg list"
  | AttributeError string
  | KeyError string
  | TypeError string
  | OtherError string
and exn_arg =
    ArgExn exn
  | ArgCode "string option"

text \<open>
  Iterating over a value that is not iterable raises \<open>TypeError\<close>; the message quotes
  the type name (\<open>CHR 0x27\<close> is the quotation mark), in the wording of Python 3.10 and
  later.
\<close>

definition not_iterable :: "string \<Rightarrow> exn" where
  "not_iterable tname = TypeError (CHR 0x27 # tname @ CHR 0x27 # '' object is not iterable'')"

definition none_not_iterable :: exn where
  "none_not_iterable = not_iterable ''NoneType''"

text \<open>
  A Python \<open>dict\<close> keeps its keys in insertion order, and assigning to a key that is
  already present replaces the value in place. It is an association list with
  pairwise distinct keys; \<open>dict_set\<close> is \<open>d[k] = v\<close> and \<open>dict_get\<close> is
  \<open>d.get(k)\<close>.
\<close>

type_synonym ('k, 'v) pydict = "('k \<times> 'v) list"

definition dict_get :: "('k, 'v) pydict \<Rightarrow> 'k \<Rightarrow> 'v option" where
  "dict_get d k = map_of d k"

fun dict_set :: "'k \<Rightarrow> 'v \<Rightarrow> ('k, 'v) pydict \<Rightarrow> ('k, 'v) pydict" where
  "dict_set k v [] = [(k, v)]"
| "dict_set k v (p # d) = (if fst p = k then (fst p, v) # d else p # dict_set k v d)"

text \<open>\<open>dict(pairs)\<close>: the pairs are inserted from left to right into an empty dict.\<close>

fun dict_from :: "('k \<times> 'v) list \<Rightarrow> ('k, 'v) pydict \<Rightarrow> ('k, 'v) pydict" where
  "dict_from [] d = d"
| "dict_from (p # ps) d = dict_from ps (dict_set (fst p) (snd p) d)"

definition py_dict :: "('k \<times> 'v) list \<Rightarrow> ('k, 'v) pydict" where
  "py_dict ps = dict_from ps []"

text \<open>
  The dict that \<open>select\<close> and \<open>select_one\<close> build and that \<open>map\<close> reads is
  heterogeneous: some keys hold a list of column names, some a list of rows, some a
  single row or \<open>None\<close>. Its entries are kept by the type of their value, one
  finite map per type, and a key lies in at most one of the three; reading a key that
  is in none of them is the \<open>KeyError\<close> of Python. The entry read as \<open>columns\<close>
  is a list of names.
\<close>

record result_dict =
  name_lists :: "string \<rightharpoonup> string list"
  row_lists :: "string \<rightharpoonup> row list"
  single_rows :: "string \<rightharpoonup> row option"

type_synonym mapped_row = "(string, cell) pydict"

section \<open>AbstractDAO\<close>

text \<open>
  \<^verbatim>\<open>
  arr = []
  for data in inp["data"]:
      arr.append(dict(zip(inp["columns"], data)))
  return arr
  \<close>
  \<open>inp["data"]\<close> is read once, before the loop; \<open>inp["columns"]\<close> is read in the
  loop body, once per row, so a dict without \<open>"columns"\<close> and with no rows is mapped
  to the empty list. \<open>zip\<close> stops at the shorter of its two arguments.

  The loop iterates over whatever \<open>inp["data"]\<close> holds. For a list of rows, which is
  what \<open>select\<close> stores, \<open>data\<close> is a row: \<open>map_loop\<close>. For the single row that
  \<open>select_one\<close> stores, \<open>data\<close> is one cell of that row, and for a list of names it
  is one name: \<open>cell_loop\<close>, where \<open>zip\<close> iterates over the cell, the characters of
  a string, and raises \<open>TypeError\<close> for an integer or \<open>None\<close>. When
  \<open>select_one\<close> found no row, \<open>inp["data"]\<close> is \<open>None\<close> and the \<open>for\<close> statement
  itself raises \<open>TypeError\<close>.
\<close>

fun cell_iter :: "cell \<Rightarrow> exn + cell list" where
  "cell_iter (CStr s) = Inr (map (\<lambda>c. CStr [c]) s)"
| "cell_iter (CInt n) = Inl (not_iterable ''int'')"
| "cell_iter CNone = Inl none_not_iterable"

fun cell_loop :: "result_dict \<Rightarrow> cell list \<Rightarrow> mapped_row list \<Rightarrow> exn + mapped_row list" where
  "cell_loop inp [] arr = Inr arr"
| "cell_loop inp (data # rest) arr =
     (case name_lists inp ''columns'' of
        None \<Rightarrow> Inl (KeyError ''columns'')
      | Some columns \<Rightarrow>
          (case cell_iter data of
             Inl e \<Rightarrow> Inl e
           | Inr chars \<Rightarrow> cell_loop inp rest (arr @ [py_dict (zip columns chars)])))"

fun map_loop :: "result_dict \<Rightarrow> row list \<Rightarrow> mapped_row list \<Rightarrow> exn + mapped_row list" where
  "map_loop inp [] arr = Inr arr"
| "map_loop inp (data # rest) arr =
     (case name_lists inp ''columns'' of
        None \<Rightarrow> Inl (KeyError ''columns'')
      | Some columns \<Rightarrow> map_loop inp rest (arr @ [py_dict (zip columns data)]))"

definition AbstractDAO_map :: "result_dict \<Rightarrow> exn + mapped_row list" where
  "AbstractDAO_map inp =
     (case row_lists inp ''data'' of
        Some rows \<Rightarrow> map_loop inp rows []
      | None \<Rightarrow>
          (case single_rows inp ''data'' of
             Some (Some one_row) \<Rightarrow> cell_loop inp one_row []
           | Some None \<Rightarrow> Inl none_not_iterable
           | None \<Rightarrow>
               (case name_lists inp ''data'' of
                  Some names \<Rightarrow> cell_loop inp (map CStr names) []
                | None \<Rightarrow> Inl (KeyError ''data''))))"

text \<open>
  \<^verbatim>\<open>
  arr: list = cls.map(inp)
  res: dict = {}
  for row in arr:
      values: list = res.get(row[key_column])
      if values is None:
          values = []
          res[row[key_column]] = values
      values.append(row)
  return res
  \<close>
  \<open>row[key_column]\<close> raises \<open>KeyError\<close> when the row has no such key. The list
  \<open>values\<close> is the object stored in \<open>res\<close>, so appending to it changes the bucket
  in place; a new bucket goes to the end of \<open>res\<close>.
\<close>

type_synonym buckets = "(cell, mapped_row list) pydict"

fun hash_loop :: "string \<Rightarrow> mapped_row list \<Rightarrow> buckets \<Rightarrow> exn + buckets" where
  "hash_loop key_column [] res = Inr res"
| "hash_loop key_column (row # rest) res =
     (case dict_get row key_column of
        None \<Rightarrow> Inl (KeyError key_column)
      | Some k \<Rightarrow>
          (case dict_get res k of
             None \<Rightarrow> hash_loop key_column rest (dict_set k [row] res)
           | Some values \<Rightarrow> hash_loop key_column rest (dict_set k (values @ [row]) res)))"

definition AbstractDAO_hash_map :: "result_dict \<Rightarrow> string \<Rightarrow> exn + buckets" where
  "AbstractDAO_hash_map inp key_column =
     (case AbstractDAO_map inp of
        Inl e \<Rightarrow> Inl e
      | Inr arr \<Rightarrow> hash_loop key_column arr [])"

text \<open>The keys of a list in the order in which each is first seen.\<close>

fun first_seen :: "'a list \<Rightarrow> 'a list" where
  "first_seen [] = []"
| "first_seen (x # xs) = x # first_seen (filter (\<lambda>y. y \<noteq> x) xs)"

section \<open>The database library\<close>

text \<open>
  Pooling, statement execution and transactions belong to the database library, which
  is not part of the sources. It is a parameter of every operation: each call the
  sources make on an engine, a connection, a session or a result is an \<open>event\<close>,
  the \<open>world\<close> records the events in the order in which they happen, and the
  library answers a call from the events so far. Nothing is assumed about its
  answers.
\<close>

type_synonym params = "(string, cell) pydict"

datatype bind = Single params | Many "params list"

datatype cfg = CfgStr string | CfgInt int | CfgBool bool | CfgDict "(string \<times> cfg) list"

type_synonym kwargs = "(string, cfg) pydict"

datatype event =
    CreateEngine "cfg list" kwargs
  | Connect nat
  | ExecutionOptions nat bool
  | NewSession nat
  | Dispose nat
  | ConnExecute nat string params
  | Fetchall nat
  | Fetchone nat
  | SessExecute nat string bind
  | SessCommit nat
  | SessRollback nat
  | SessClose nat
  | ConnClose nat

text \<open>
  A connection is seen through its identity and its two flags \<open>closed\<close> and
  \<open>invalidated\<close>, as they stand when an operation is called. The flags belong to the
  library: the sources read them, in \<open>is_available\<close> only, and never assign them.
\<close>

record connection =
  conn_id :: nat
  closed :: bool
  invalidated :: bool

record engine =
  eng_id :: nat
  pool :: nat

text \<open>
  The result of \<open>connection.execute\<close>. Its attribute \<open>cursor\<close> is \<open>None\<close>
  (\<open>NoCursor\<close>: the library has already closed the cursor, as it does for a statement
  that returns no rows) or a cursor, whose \<open>description\<close> is \<open>None\<close> or a sequence
  of entries; of each entry the sources read the first component, the column name.
\<close>

datatype cursor = NoCursor | Cursor "string list option"

record cursor_result =
  res_id :: nat
  cursor :: cursor

record library =
  create_engine :: "event list \<Rightarrow> cfg list \<Rightarrow> kwargs \<Rightarrow> exn + engine"
  connect :: "event list \<Rightarrow> nat \<Rightarrow> exn + connection"
  execution_options :: "event list \<Rightarrow> connection \<Rightarrow> bool \<Rightarrow> exn + connection"
  new_session :: "event list \<Rightarrow> connection \<Rightarrow> exn + nat"
  conn_execute :: "event list \<Rightarrow> nat \<Rightarrow> string \<Rightarrow> params \<Rightarrow> exn + cursor_result"
  fetchall :: "event list \<Rightarrow> nat \<Rightarrow> exn + row list"
  fetchone :: "event list \<Rightarrow> nat \<Rightarrow> exn + row option"
  command :: "event list \<Rightarrow> event \<Rightarrow> exn option"

record world =
  history :: "event list"
  printed :: "exn list"

type_synonym 'a outcome = "(exn + 'a) \<times> world"

definition record_event :: "event \<Rightarrow> world \<Rightarrow> world" where
  "record_event ev w = w\<lparr>history := history w @ [ev]\<rparr>"

text \<open>A call made for its effect only (commit, rollback, close, dispose, session execute).\<close>

definition run_command :: "library \<Rightarrow> event \<Rightarrow> world \<Rightarrow> unit outcome" where
  "run_command lib ev w =
     (case command lib (history w) ev of None \<Rightarrow> Inr () | Some e \<Rightarrow> Inl e, record_event ev w)"

definition py_print :: "exn \<Rightarrow> world \<Rightarrow> world" where
  "py_print e w = w\<lparr>printed := printed w @ [e]\<rparr>"

text \<open>
  Reading an attribute of \<open>None\<close>. Python quotes the type and the attribute in the
  message.
\<close>

definition none_has_no :: "string \<Rightarrow> exn" where
  "none_has_no name =
     AttributeError (CHR 0x27 # ''NoneType' object has no attribute '' @ CHR 0x27 # name @ [CHR 0x27])"



section \<open>SqlSession\<close>

record data_source =
  ds_engine :: "engine option"
  ds_pool :: "nat option"

record sql_session =
  s_data_source :: "data_source option"
  s_connection :: "connection option"
  s_session :: "nat option"

text \<open>The three attributes are class attributes set to \<open>None\<close>; \<open>__init__\<close> is empty.\<close>

definition new_SqlSession :: sql_session where
  "new_SqlSession = \<lparr>s_data_source = None, s_connection = None, s_session = None\<rparr>"

text \<open>
  \<^verbatim>\<open>
  self._data_source = data_source
  self._connection = connection
  self._session = Session(self._connection)
  \<close>
\<close>

definition SqlSession_init ::
  "sql_session \<Rightarrow> data_source \<Rightarrow> connection \<Rightarrow> library \<Rightarrow> world
     \<Rightarrow> (exn + unit) \<times> sql_session \<times> world" where
  "SqlSession_init s ds c lib w =
     (let s1 = s\<lparr>s_data_source := Some ds, s_connection := Some c\<rparr>;
          w1 = record_event (NewSession (conn_id c)) w
      in case new_session lib (history w) c of
           Inl e \<Rightarrow> (Inl e, s1, w1)
         | Inr h \<Rightarrow> (Inr (), s1\<lparr>s_session := Some h\<rparr>, w1))"

definition SqlSession_commit :: "sql_session \<Rightarrow> library \<Rightarrow> world \<Rightarrow> unit outcome" where
  "SqlSession_commit s lib w =
     (case s_session s of
        None \<Rightarrow> (Inl (none_has_no ''commit''), w)
      | Some h \<Rightarrow> run_command lib (SessCommit h) w)"

definition SqlSession_rollback :: "sql_session \<Rightarrow> library \<Rightarrow> world \<Rightarrow> unit outcome" where
  "SqlSession_rollback s lib w =
     (case s_session s of
        None \<Rightarrow> (Inl (none_has_no ''rollback''), w)
      | Some h \<Rightarrow> run_command lib (SessRollback h) w)"

text \<open>
  \<^verbatim>\<open>
  try:
      self._session.close()
      self._connection.close()
  except (Exception, BaseException) as e:
      raise e
  \<close>
\<close>

definition SqlSession_close :: "sql_session \<Rightarrow> library \<Rightarrow> world \<Rightarrow> unit outcome" where
  "SqlSession_close s lib w =
     (case s_session s of
        None \<Rightarrow> (Inl (none_has_no ''close''), w)
      | Some h \<Rightarrow>
          (case run_command lib (SessClose h) w of
             (Inl e, w1) \<Rightarrow> (Inl e, w1)
           | (Inr _, w1) \<Rightarrow>
               (case s_connection s of
                  None \<Rightarrow> (Inl (none_has_no ''close''), w1)
                | Some c \<Rightarrow> run_command lib (ConnClose (conn_id c)) w1)))"

text \<open>
  \<open>__exit__\<close>:
  \<^verbatim>\<open>
  try:
      self.commit()
  except (Exception, BaseException) as e:
      print(e)
  self.close()
  \<close>
\<close>

definition SqlSession_exit :: "sql_session \<Rightarrow> library \<Rightarrow> world \<Rightarrow> unit outcome" where
  "SqlSession_exit s lib w =
     (case SqlSession_commit s lib w of
        (Inl e, w1) \<Rightarrow> SqlSession_close s lib (py_print e w1)
      | (Inr _, w1) \<Rightarrow> SqlSession_close s lib w1)"

text \<open>
  \<open>is_available\<close>:
  \<^verbatim>\<open>
  return self._connection is not None and not self._connection.closed
         and not self._connection.invalidated
  \<close>
\<close>

definition is_available :: "sql_session \<Rightarrow> bool" where
  "is_available s =
     (case s_connection s of None \<Rightarrow> False | Some c \<Rightarrow> \<not> closed c \<and> \<not> invalidated c)"

definition unavailable :: exn where
  "unavailable = DataSourceError ''Current connection is not in available state.'' []"

definition check_availability :: "sql_session \<Rightarrow> exn + unit" where
  "check_availability s = (if \<not> is_available s then Inl unavailable else Inr ())"


text \<open>
  \<open>select\<close>, \<open>select_one\<close> and \<open>execute\<close> take the parameters of the statement as
  keyword arguments (\<open>**params\<close>), in the order in which the caller writes them. A
  keyword that has the name of a parameter the call has already bound by position
  (\<open>self\<close> and \<open>sql\<close>, or \<open>self\<close> and \<open>sql_template\<close>) does not reach \<open>params\<close>:
  Python raises \<open>TypeError\<close> for the first such keyword, before the body of the method
  runs. The message is that of Python 3.10 and later.
\<close>

definition multiple_values :: "string \<Rightarrow> string \<Rightarrow> exn" where
  "multiple_values fname k =
     TypeError (fname @ ''() got multiple values for argument '' @ CHR 0x27 # k @ [CHR 0x27])"

definition bind_keywords :: "string \<Rightarrow> string list \<Rightarrow> params \<Rightarrow> exn option" where
  "bind_keywords fname positional ps =
     (case filter (\<lambda>k. k \<in> set positional) (map fst ps) of
        [] \<Rightarrow> None
      | k # ks \<Rightarrow> Some (multiple_values fname k))"

text \<open>
  The handlers of \<open>select\<close> and \<open>select_one\<close>:
  \<^verbatim>\<open>
  except SQLAlchemyError as e:
      error = e.args
      error_code = e.code
      raise DataSourceError(f"database select Error: {e}", e, error_code)
  except (Exception, BaseException) as e:
      raise e
  \<close>
\<close>

fun select_handlers :: "exn \<Rightarrow> exn" where
  "select_handlers (SQLAlchemyError msg code) =
     DataSourceError (''database select Error: '' @ msg)
       [ArgExn (SQLAlchemyError msg code), ArgCode code]"
| "select_handlers e = e"

text \<open>
  The \<open>try\<close> block of \<open>select\<close>:
  \<^verbatim>\<open>
  result = self._connection.execute(text(sql), params)
  column_names = [desc[0] for desc in result.cursor.description]
  data_array = result.fetchall()
  return {'column_names': column_names, 'data': data_array}
  \<close>
\<close>

definition select_try ::
  "sql_session \<Rightarrow> string \<Rightarrow> params \<Rightarrow> library \<Rightarrow> world \<Rightarrow> result_dict outcome" where
  "select_try s sql ps lib w =
     (case s_connection s of
        None \<Rightarrow> (Inl (none_has_no ''execute''), w)
      | Some c \<Rightarrow>
          (let w1 = record_event (ConnExecute (conn_id c) sql ps) w
           in case conn_execute lib (history w) (conn_id c) sql ps of
                Inl e \<Rightarrow> (Inl e, w1)
              | Inr result \<Rightarrow>
                  (case cursor result of
                     NoCursor \<Rightarrow> (Inl (none_has_no ''description''), w1)
                   | Cursor None \<Rightarrow> (Inl none_not_iterable, w1)
                   | Cursor (Some column_names) \<Rightarrow>
                       (let w2 = record_event (Fetchall (res_id result)) w1
                        in case fetchall lib (history w1) (res_id result) of
                             Inl e \<Rightarrow> (Inl e, w2)
                           | Inr data_array \<Rightarrow>
                               (Inr \<lparr>name_lists = [''column_names'' \<mapsto> column_names],
                                     row_lists = [''data'' \<mapsto> data_array],
                                     single_rows = Map.empty\<rparr>, w2)))))"

definition SqlSession_select ::
  "sql_session \<Rightarrow> string \<Rightarrow> params \<Rightarrow> library \<Rightarrow> world \<Rightarrow> result_dict outcome" where
  "SqlSession_select s sql ps lib w =
     (case bind_keywords ''SqlSession.select'' [''self'', ''sql''] ps of
        Some e \<Rightarrow> (Inl e, w)
      | None \<Rightarrow>
          (case select_try s sql ps lib w of
             (Inl e, w1) \<Rightarrow> (Inl (select_handlers e), w1)
           | (Inr res, w1) \<Rightarrow> (Inr res, w1)))"



text \<open>
  \<open>insert\<close> and \<open>execute\<close> share their shape:
  \<^verbatim>\<open>
  result = True
  try:
      self._session.execute(text(sql_template), data_list)
      self.commit()
  except SQLAlchemyError as e:
      result = False
      error = e.args
      error_code = e.code
      raise DataSourceError(f"database select Error: {e}", error_code)
  except (Exception, BaseException) as e:
      result = False
      raise e
  finally:
      return result
  \<close>
  The \<open>try\<close> block is \<open>write_try\<close>. A handler sets \<open>result\<close> and raises, which
  leaves an exception pending while the \<open>finally\<close> clause runs; \<open>write_handlers\<close>
  gives that exception. A \<open>return\<close> in a \<open>finally\<close> clause discards the pending
  exception and the function returns normally: \<open>finally_return\<close>. \<open>execute\<close> binds
  its keywords before the \<open>try\<close> statement is entered, so the \<open>TypeError\<close> of the
  binding reaches the caller.
\<close>

definition write_try ::
  "sql_session \<Rightarrow> string \<Rightarrow> bind \<Rightarrow> library \<Rightarrow> world \<Rightarrow> unit outcome" where
  "write_try s sql_template b lib w =
     (case s_session s of
        None \<Rightarrow> (Inl (none_has_no ''execute''), w)
      | Some h \<Rightarrow>
          (case run_command lib (SessExecute h sql_template b) w of
             (Inl e, w1) \<Rightarrow> (Inl e, w1)
           | (Inr _, w1) \<Rightarrow> SqlSession_commit s lib w1))"

fun write_handlers :: "exn \<Rightarrow> exn" where
  "write_handlers (SQLAlchemyError msg code) =
     DataSourceError (''database select Error: '' @ msg) [ArgCode code]"
| "write_handlers e = e"

definition finally_return :: "exn option \<Rightarrow> 'a \<Rightarrow> exn + 'a" where
  "finally_return pending result = Inr result"

definition write_statement ::
  "sql_session \<Rightarrow> string \<Rightarrow> bind \<Rightarrow> library \<Rightarrow> world \<Rightarrow> bool outcome" where
  "write_statement s sql_template b lib w =
     (case write_try s sql_template b lib w of
        (Inl e, w1) \<Rightarrow> (finally_return (Some (write_handlers e)) False, w1)
      | (Inr _, w1) \<Rightarrow> (finally_return None True, w1))"

definition SqlSession_insert ::
  "sql_session \<Rightarrow> string \<Rightarrow> params list \<Rightarrow> library \<Rightarrow> world \<Rightarrow> bool outcome" where
  "SqlSession_insert s sql_template data_list lib w =
     write_statement s sql_template (Many data_list) lib w"

definition SqlSession_execute ::
  "sql_session \<Rightarrow> string \<Rightarrow> params \<Rightarrow> library \<Rightarrow> world \<Rightarrow> bool outcome" where
  "SqlSession_execute s sql_template ps lib w =
     (case bind_keywords ''SqlSession.execute'' [''self'', ''sql_template''] ps of
        Some e \<Rightarrow> (Inl e, w)
      | None \<Rightarrow> write_statement s sql_template (Single ps) lib w)"

section \<open>DataSource\<close>

definition new_DataSource :: data_source where
  "new_DataSource = \<lparr>ds_engine = None, ds_pool = None\<rparr>"

definition is_initialized :: "data_source \<Rightarrow> bool" where
  "is_initialized ds = (ds_engine ds \<noteq> None)"

definition not_initialized :: exn where
  "not_initialized =
     DataSourceError
       ''database connection pool has not been initialized properly. Maybe something went wrong..'' []"

definition check_initialization :: "data_source \<Rightarrow> exn + unit" where
  "check_initialization ds = (if \<not> is_initialized ds then Inl not_initialized else Inr ())"

text \<open>
  The decorator \<open>requires_init\<close>: the wrapper calls \<open>self.check_initialization()\<close>
  and then the wrapped method. Its two \<open>TypeError\<close> branches are for a call without
  arguments and for a receiver that is not a \<open>DataSource\<close>; the type of \<open>ds\<close>
  excludes both.
\<close>

definition requires_init ::
  "(data_source \<Rightarrow> library \<Rightarrow> world \<Rightarrow> 'a outcome) \<Rightarrow> data_source \<Rightarrow> library \<Rightarrow> world \<Rightarrow> 'a outcome" where
  "requires_init func ds lib w =
     (case check_initialization ds of Inl e \<Rightarrow> (Inl e, w) | Inr _ \<Rightarrow> func ds lib w)"

text \<open>
  \<^verbatim>\<open>
  kwargs.update({'connect_args': {'connect_timeout': 10}})
  self._engine = create_engine( *args, **kwargs )
  self._pool = self._engine.pool
  \<close>
  \<open>kwargs\<close> is the dict Python builds for this call from the keywords that reach
  \<open>**kwargs\<close>, so updating it is not seen by the caller. A keyword named \<open>self\<close>
  never reaches it: the call raises \<open>TypeError\<close> when it binds its arguments, before
  this body runs.
\<close>

definition init_kwargs :: "kwargs \<Rightarrow> kwargs" where
  "init_kwargs kw = dict_set ''connect_args'' (CfgDict [(''connect_timeout'', CfgInt 10)]) kw"

definition DataSource_init ::
  "data_source \<Rightarrow> cfg list \<Rightarrow> kwargs \<Rightarrow> library \<Rightarrow> world \<Rightarrow> (exn + unit) \<times> data_source \<times> world" where
  "DataSource_init ds args kw lib w =
     (let kw1 = init_kwargs kw;
          w1 = record_event (CreateEngine args kw1) w
      in case create_engine lib (history w) args kw1 of
           Inl e \<Rightarrow> (Inl e, ds, w1)
         | Inr eng \<Rightarrow> (Inr (), ds\<lparr>ds_engine := Some eng, ds_pool := Some (pool eng)\<rparr>, w1))"

text \<open>
  \<^verbatim>\<open>
  connection = self._engine.connect().execution_options(autocommit=False)
  session = SqlSession()
  session.init(self, connection)
  return session
  \<close>
\<close>

definition get_session_body :: "data_source \<Rightarrow> library \<Rightarrow> world \<Rightarrow> sql_session outcome" where
  "get_session_body ds lib w =
     (case ds_engine ds of
        None \<Rightarrow> (Inl (none_has_no ''connect''), w)
      | Some eng \<Rightarrow>
          (let w1 = record_event (Connect (eng_id eng)) w
           in case connect lib (history w) (eng_id eng) of
                Inl e \<Rightarrow> (Inl e, w1)
              | Inr c \<Rightarrow>
                  (let w2 = record_event (ExecutionOptions (conn_id c) False) w1
                   in case execution_options lib (history w1) c False of
                        Inl e \<Rightarrow> (Inl e, w2)
                      | Inr c1 \<Rightarrow>
                          (case SqlSession_init new_SqlSession ds c1 lib w2 of
                             (Inl e, s, w3) \<Rightarrow> (Inl e, w3)
                           | (Inr _, s, w3) \<Rightarrow> (Inr s, w3)))))"

definition DataSource_get_session :: "data_source \<Rightarrow> library \<Rightarrow> world \<Rightarrow> sql_session outcome" where
  "DataSource_get_session = requires_init get_session_body"

text \<open>
  \<^verbatim>\<open>
  try:
      del session
  except (Exception, BaseException) as e:
      print(e)
  \<close>
  \<open>del session\<close> unbinds the parameter, which is bound, so it cannot raise. What the
  garbage collector does with the session afterwards is not part of the call.
\<close>

definition release_session_body ::
  "sql_session \<Rightarrow> data_source \<Rightarrow> library \<Rightarrow> world \<Rightarrow> unit outcome" where
  "release_session_body session ds lib w = (Inr (), w)"

definition DataSource_release_session ::
  "data_source \<Rightarrow> sql_session \<Rightarrow> library \<Rightarrow> world \<Rightarrow> unit outcome" where
  "DataSource_release_session ds session = requires_init (release_session_body session) ds"

text \<open>\<open>close\<close>: \<^verbatim>\<open>self._engine.dispose()\<close>. No attribute of the data source is assigned.\<close>

definition close_body :: "data_source \<Rightarrow> library \<Rightarrow> world \<Rightarrow> unit outcome" where
  "close_body ds lib w =
     (case ds_engine ds of
        None \<Rightarrow> (Inl (none_has_no ''dispose''), w)
      | Some eng \<Rightarrow> run_command lib (Dispose (eng_id eng)) w)"

definition DataSource_close :: "data_source \<Rightarrow> library \<Rightarrow> world \<Rightarrow> unit outcome" where
  "DataSource_close = requires_init close_body"

section \<open>Scenarios\<close>

text \<open>
  Concrete libraries, data sources and sessions on which the operations are run.
  \<open>memory_library\<close> is an in-memory database that answers every query with the
  table \<open>(1, a), (2, b)\<close> over the columns \<open>id, name\<close>, and keeps answering
  after \<open>dispose\<close> (as SQLAlchemy's engine does, which opens a new pool).
  \<open>refusing_library\<close> has lost its server: every call raises an error of the
  library's own class.
\<close>

definition empty_world :: world where
  "empty_world = \<lparr>history = [], printed = []\<rparr>"

definition memory_library :: library where
  "memory_library =
     \<lparr>create_engine = (\<lambda>h args kw. Inr \<lparr>eng_id = 1, pool = 2\<rparr>),
      connect = (\<lambda>h e. Inr \<lparr>conn_id = 3, closed = False, invalidated = False\<rparr>),
      execution_options = (\<lambda>h c autocommit. Inr c),
      new_session = (\<lambda>h c. Inr 4),
      conn_execute = (\<lambda>h c sql ps. Inr \<lparr>res_id = 5, cursor = Cursor (Some [''id'', ''name''])\<rparr>),
      fetchall = (\<lambda>h r. Inr [[CInt 1, CStr ''a''], [CInt 2, CStr ''b'']]),
      fetchone = (\<lambda>h r. Inr (Some [CInt 1, CStr ''a''])),
      command = (\<lambda>h ev. None)\<rparr>"

definition connection_lost :: exn where
  "connection_lost = SQLAlchemyError ''server closed the connection unexpectedly'' (Some ''e3q8'')"

definition refusing_library :: library where
  "refusing_library =
     \<lparr>create_engine = (\<lambda>h args kw. Inl connection_lost),
      connect = (\<lambda>h e. Inl connection_lost),
      execution_options = (\<lambda>h c autocommit. Inl connection_lost),
      new_session = (\<lambda>h c. Inl connection_lost),
      conn_execute = (\<lambda>h c sql ps. Inl connection_lost),
      fetchall = (\<lambda>h r. Inl connection_lost),
      fetchone = (\<lambda>h r. Inl connection_lost),
      command = (\<lambda>h ev. Some connection_lost)\<rparr>"

definition memory_source :: data_source where
  "memory_source = \<lparr>ds_engine = Some \<lparr>eng_id = 1, pool = 2\<rparr>, ds_pool = Some 2\<rparr>"

definition open_session :: sql_session where
  "open_session =
     \<lparr>s_data_source = Some memory_source,
      s_connection = Some \<lparr>conn_id = 3, closed = False, invalidated = False\<rparr>,
      s_session = Some 4\<rparr>"



definition scenario_result :: result_dict where
  "scenario_result =
     \<lparr>name_lists = [''columns'' \<mapsto> [''id'', ''name'']],
      row_lists = [''data'' \<mapsto> [[CInt 1, CStr ''a''], [CInt 2, CStr ''b'']]],
      single_rows = Map.empty\<rparr>"

text \<open>A table in which the rows of one key are not adjacent.\<close>

definition regrouped_result :: result_dict where
  "regrouped_result =
     \<lparr>name_lists = [''columns'' \<mapsto> [''id'', ''name'']],
      row_lists = [''data'' \<mapsto> [[CInt 1, CStr ''a''], [CInt 2, CStr ''b''], [CInt 1, CStr ''c'']]],
      single_rows = Map.empty\<rparr>"

section \<open>Dictionaries and the two loops\<close>

lemma map_of_dict_set: "map_of (dict_set k v d) = (map_of d)(k \<mapsto> v)"
  by (induction d) (auto simp: fun_eq_iff)

lemma keys_dict_set:
  "map fst (dict_set k v d) = (if k \<in> set (map fst d) then map fst d else map fst d @ [k])"
  by (induction d) auto

lemma distinct_dict_set: "distinct (map fst d) \<Longrightarrow> distinct (map fst (dict_set k v d))"
  by (simp add: keys_dict_set)

lemma dict_from_notin:
  "k \<notin> fst ` set ps \<Longrightarrow> map_of (dict_from ps d) k = map_of d k"
  by (induction ps arbitrary: d) (auto simp: map_of_dict_set)

lemma distinct_dict_from: "distinct (map fst d) \<Longrightarrow> distinct (map fst (dict_from ps d))"
  by (induction ps arbitrary: d) (auto simp: distinct_dict_set)

lemma keys_dict_from:
  "map fst (dict_from ps d) =
     map fst d @ first_seen (filter (\<lambda>k. k \<notin> set (map fst d)) (map fst ps))"
proof (induction ps arbitrary: d)
  case Nil
  then show ?case by simp
next
  case (Cons p ps)
  show ?case
  proof (cases "fst p \<in> set (map fst d)")
    case True
    then show ?thesis by (simp add: Cons.IH keys_dict_set)
  next
    case False
    have "filter (\<lambda>k. k \<notin> set (map fst d @ [fst p])) (map fst ps)
        = filter (\<lambda>y. y \<noteq> fst p) (filter (\<lambda>k. k \<notin> set (map fst d)) (map fst ps))"
      by (induction ps) auto
    with False show ?thesis by (simp add: Cons.IH keys_dict_set del: set_append)
  qed
qed

lemma filter_neq_notin: "a \<notin> set xs \<Longrightarrow> filter (\<lambda>y. y \<noteq> a) xs = xs"
  by (induction xs) auto

lemma first_seen_distinct: "distinct xs \<Longrightarrow> first_seen xs = xs"
  by (induction xs) (auto simp: filter_neq_notin)

lemma set_first_seen: "set (first_seen xs) = set xs"
  by (induction xs rule: first_seen.induct) auto

lemma distinct_first_seen: "distinct (first_seen xs)"
  by (induction xs rule: first_seen.induct) (auto simp: set_first_seen)

lemma dict_from_zip_last:
  "length cols = length r \<Longrightarrow> j < length cols \<Longrightarrow>
   (\<forall>k. j < k \<and> k < length cols \<longrightarrow> cols ! k \<noteq> cols ! j) \<Longrightarrow>
   map_of (dict_from (zip cols r) d) (cols ! j) = Some (r ! j)"
proof (induction cols arbitrary: r d j)
  case Nil
  then show ?case by simp
next
  case (Cons c cols)
  then obtain v vs where r: "r = v # vs" by (cases r) auto
  show ?case
  proof (cases j)
    case 0
    have "c \<notin> set cols"
    proof
      assume "c \<in> set cols"
      then obtain k where "k < length cols" "cols ! k = c" by (auto simp: in_set_conv_nth)
      with Cons.prems(3) 0 show False by (auto dest: spec[of _ "Suc k"])
    qed
    then have "c \<notin> fst ` set (zip cols vs)" by (auto dest: set_zip_leftD)
    with 0 r show ?thesis by (simp add: dict_from_notin map_of_dict_set)
  next
    case (Suc j')
    have "\<forall>k. j' < k \<and> k < length cols \<longrightarrow> cols ! k \<noteq> cols ! j'"
      using Cons.prems(3) Suc by (auto dest: spec[of _ "Suc k" for k])
    with Cons.prems Suc r show ?thesis by (simp add: Cons.IH)
  qed
qed

lemma map_loop_eq:
  "name_lists inp ''columns'' = Some cols \<Longrightarrow>
   map_loop inp rows arr = Inr (arr @ map (\<lambda>r. py_dict (zip cols r)) rows)"
  by (induction rows arbitrary: arr) auto

lemma dict_set_append_new:
  "k \<notin> fst ` set d \<Longrightarrow> dict_set k v d = d @ [(k, v)]"
  by (induction d) auto

lemma mset_concat_dict_set_old:
  "map_of d k = Some vs \<Longrightarrow>
   mset (concat (map snd (dict_set k (vs @ [r]) d))) = mset (concat (map snd d)) + {#r#}"
  by (induction d) (auto split: if_splits)

lemma hash_loop_inv:
  "\<forall>r \<in> set rows. dict_get r key \<noteq> None \<Longrightarrow> distinct (map fst acc) \<Longrightarrow>
   \<exists>res. hash_loop key rows acc = Inr res
     \<and> distinct (map fst res)
     \<and> map fst res = map fst acc @
         first_seen (filter (\<lambda>k. k \<notin> set (map fst acc)) (map (\<lambda>r. the (dict_get r key)) rows))
     \<and> (\<forall>k. (case map_of res k of None \<Rightarrow> [] | Some b \<Rightarrow> b)
            = (case map_of acc k of None \<Rightarrow> [] | Some b \<Rightarrow> b) @ filter (\<lambda>r. dict_get r key = Some k) rows)
     \<and> mset (concat (map snd res)) = mset (concat (map snd acc)) + mset rows"
proof (induction rows arbitrary: acc)
  case Nil
  then show ?case by simp
next
  case (Cons row rows)
  from Cons.prems(1) obtain k where k: "dict_get row key = Some k" by auto
  define acc' where "acc' = dict_set k ((case map_of acc k of None \<Rightarrow> [] | Some b \<Rightarrow> b) @ [row]) acc"
  have step: "hash_loop key (row # rows) acc = hash_loop key rows acc'"
    using k by (auto simp: acc'_def dict_get_def split: option.splits)
  have d': "distinct (map fst acc')" using Cons.prems(2) by (simp add: acc'_def distinct_dict_set)
  have rest: "\<forall>r \<in> set rows. dict_get r key \<noteq> None" using Cons.prems(1) by simp
  from Cons.IH[OF rest d'] obtain res where
    r1: "hash_loop key rows acc' = Inr res" and r2: "distinct (map fst res)"
    and r3: "map fst res = map fst acc' @
         first_seen (filter (\<lambda>k. k \<notin> set (map fst acc')) (map (\<lambda>r. the (dict_get r key)) rows))"
    and r4: "\<forall>k. (case map_of res k of None \<Rightarrow> [] | Some b \<Rightarrow> b)
            = (case map_of acc' k of None \<Rightarrow> [] | Some b \<Rightarrow> b) @ filter (\<lambda>r. dict_get r key = Some k) rows"
    and r5: "mset (concat (map snd res)) = mset (concat (map snd acc')) + mset rows"
    by blast
  have keys: "map fst acc' @
         first_seen (filter (\<lambda>k. k \<notin> set (map fst acc')) (map (\<lambda>r. the (dict_get r key)) rows))
       = map fst acc @
         first_seen (filter (\<lambda>k. k \<notin> set (map fst acc)) (map (\<lambda>r. the (dict_get r key)) (row # rows)))"
  proof (cases "k \<in> set (map fst acc)")
    case True
    then show ?thesis by (simp add: acc'_def keys_dict_set k)
  next
    case False
    have "filter (\<lambda>x. x \<notin> set (map fst acc @ [k])) xs
        = filter (\<lambda>y. y \<noteq> k) (filter (\<lambda>x. x \<notin> set (map fst acc)) xs)" for xs
      by (induction xs) auto
    with False show ?thesis by (simp add: acc'_def keys_dict_set k del: set_append)
  qed
  have bucket: "(case map_of acc' k' of None \<Rightarrow> [] | Some b \<Rightarrow> b) @ filter (\<lambda>r. dict_get r key = Some k') rows
     = (case map_of acc k' of None \<Rightarrow> [] | Some b \<Rightarrow> b) @ filter (\<lambda>r. dict_get r key = Some k') (row # rows)" for k'
    by (simp add: acc'_def map_of_dict_set k)
  have ms: "mset (concat (map snd acc')) = mset (concat (map snd acc)) + {#row#}"
  proof (cases "map_of acc k")
    case None
    then have "k \<notin> fst ` set acc" by (simp add: map_of_eq_None_iff)
    with None show ?thesis by (simp add: acc'_def dict_set_append_new)
  next
    case (Some vs)
    then show ?thesis by (simp add: acc'_def mset_concat_dict_set_old)
  qed
  show ?case
  proof (intro exI[of _ res] conjI allI)
    show "hash_loop key (row # rows) acc = Inr res"
      by (simp only: step r1)
    show "distinct (map fst res)"
      by (rule r2)
    show "map fst res = map fst acc @
         first_seen (filter (\<lambda>k. k \<notin> set (map fst acc)) (map (\<lambda>r. the (dict_get r key)) (row # rows)))"
      by (simp only: r3 keys)
    show "(case map_of res k' of None \<Rightarrow> [] | Some b \<Rightarrow> b)
        = (case map_of acc k' of None \<Rightarrow> [] | Some b \<Rightarrow> b) @ filter (\<lambda>r. dict_get r key = Some k') (row # rows)" for k'
      using r4 [rule_format, of k'] bucket [of k'] by (rule trans)
    show "mset (concat (map snd res)) = mset (concat (map snd acc)) + mset (row # rows)"
      by (simp only: r5 ms) simp
  qed
qed

lemma length_first_seen_less: "\<not> distinct xs \<Longrightarrow> length (first_seen xs) < length xs"
proof -
  assume nd: "\<not> distinct xs"
  have "length (first_seen xs) = card (set xs)"
    using distinct_card [OF distinct_first_seen, of xs] by (simp add: set_first_seen)
  moreover have "card (set xs) \<noteq> length xs" using nd card_distinct by blast
  moreover have "card (set xs) \<le> length xs" by (rule card_length)
  ultimately show ?thesis by simp
qed

lemma keys_py_dict_zip:
  "length r = length cols \<Longrightarrow> map fst (py_dict (zip cols r)) = first_seen cols"
  by (simp add: py_dict_def keys_dict_from)

lemma AbstractDAO_map_eq:
  "name_lists inp ''columns'' = Some cols \<Longrightarrow> row_lists inp ''data'' = Some rows \<Longrightarrow>
   AbstractDAO_map inp = Inr (map (\<lambda>r. py_dict (zip cols r)) rows)"
  by (simp add: AbstractDAO_map_def map_loop_eq)

section \<open>The world and the write statements\<close>

lemma history_record_event [simp]: "history (record_event ev w) = history w @ [ev]"
  by (simp add: record_event_def)

lemma printed_record_event [simp]: "printed (record_event ev w) = printed w"
  by (simp add: record_event_def)

lemma history_py_print [simp]: "history (py_print e w) = history w"
  by (simp add: py_print_def)

lemma printed_py_print [simp]: "printed (py_print e w) = printed w @ [e]"
  by (simp add: py_print_def)

lemma snd_run_command [simp]: "snd (run_command lib ev w) = record_event ev w"
  by (simp add: run_command_def)

lemma fst_run_command:
  "fst (run_command lib ev w) = (case command lib (history w) ev of None \<Rightarrow> Inr () | Some e \<Rightarrow> Inl e)"
  by (simp add: run_command_def)

lemma write_statement_returns:
  "fst (write_statement s t b lib w)
     = Inr (case fst (write_try s t b lib w) of Inl e \<Rightarrow> False | Inr u \<Rightarrow> True)"
  by (simp add: write_statement_def finally_return_def split: prod.splits sum.splits)




lemma map_on_columns_key:
  "AbstractDAO_map scenario_result
     = Inr [[(''id'', CInt 1), (''name'', CStr ''a'')], [(''id'', CInt 2), (''name'', CStr ''b'')]]"
  by (simp add: scenario_result_def AbstractDAO_map_def py_dict_def)

section \<open>C1: what insert and execute give back on failure\<close>

text \<open>
  C1. The claim says that a failing \<open>insert\<close> or \<open>execute\<close> raises, so that the
  caller sees the failure as an exception. The handlers do raise, but the \<open>return\<close>
  in the \<open>finally\<close> clause discards what they raised: on a session whose library
  refuses the statement both calls return \<open>False\<close> to the caller and no exception
  leaves them. On a library that accepts the statement both return \<open>True\<close> after
  execute and commit.
\<close>

theorem insert_execute_lose_the_exception:
  "SqlSession_insert open_session ''INSERT INTO t VALUES (:id, :name)''
       [[(''id'', CInt 3), (''name'', CStr ''c'')]] refusing_library empty_world
     = (Inr False,
        \<lparr>history = [SessExecute 4 ''INSERT INTO t VALUES (:id, :name)''
                      (Many [[(''id'', CInt 3), (''name'', CStr ''c'')]])],
         printed = []\<rparr>)
   \<and> SqlSession_execute open_session ''DELETE FROM t WHERE id = :id'' [(''id'', CInt 1)]
       refusing_library empty_world
     = (Inr False,
        \<lparr>history = [SessExecute 4 ''DELETE FROM t WHERE id = :id'' (Single [(''id'', CInt 1)])],
         printed = []\<rparr>)
   \<and> write_handlers connection_lost
     = DataSourceError ''database select Error: server closed the connection unexpectedly''
         [ArgCode (Some ''e3q8'')]
   \<and> SqlSession_execute open_session ''DELETE FROM t WHERE id = :id'' [(''id'', CInt 1)]
       memory_library empty_world
     = (Inr True,
        \<lparr>history = [SessExecute 4 ''DELETE FROM t WHERE id = :id'' (Single [(''id'', CInt 1)]),
                      SessCommit 4],
         printed = []\<rparr>)"
  by (simp add: SqlSession_insert_def SqlSession_execute_def bind_keywords_def write_statement_def
      write_try_def SqlSession_commit_def finally_return_def run_command_def record_event_def
      open_session_def refusing_library_def memory_library_def empty_world_def connection_lost_def)

section \<open>C2: select feeding map\<close>

text \<open>
  C2. The claim says that \<open>map\<close> consumes what \<open>select\<close> returns. For the table
  \<open>(1, a), (2, b)\<close> over \<open>id, name\<close>, \<open>select\<close> returns a dict whose keys are
  \<open>column_names\<close> and \<open>data\<close>; \<open>map\<close> reads \<open>columns\<close>, which is not there,
  and raises \<open>KeyError\<close> at the first row.
\<close>

theorem select_result_not_mappable:
  "SqlSession_select open_session ''SELECT id, name FROM t'' [] memory_library empty_world
     = (Inr \<lparr>name_lists = [''column_names'' \<mapsto> [''id'', ''name'']],
             row_lists = [''data'' \<mapsto> [[CInt 1, CStr ''a''], [CInt 2, CStr ''b'']]],
             single_rows = Map.empty\<rparr>,
        \<lparr>history = [ConnExecute 3 ''SELECT id, name FROM t'' [], Fetchall 5], printed = []\<rparr>)
   \<and> AbstractDAO_map
       \<lparr>name_lists = [''column_names'' \<mapsto> [''id'', ''name'']],
        row_lists = [''data'' \<mapsto> [[CInt 1, CStr ''a''], [CInt 2, CStr ''b'']]],
        single_rows = Map.empty\<rparr>
     = Inl (KeyError ''columns'')"
  by (simp add: SqlSession_select_def bind_keywords_def select_try_def record_event_def
      open_session_def memory_library_def empty_world_def AbstractDAO_map_def)

section \<open>C3: sessions that are not available\<close>




section \<open>C4: a data source after close\<close>

text \<open>
  C4, as amended. \<open>close\<close> does not clear the engine reference, so after it the data
  source is still initialized and no guard fails: a second \<open>close\<close> calls
  \<open>dispose\<close> on the engine again and raises only if that call does,
  \<open>release_session\<close> returns normally, and \<open>get_session\<close> goes on to the engine's
  \<open>connect\<close>.
\<close>

theorem closed_source_still_initialized:
  assumes "ds_engine ds = Some eng"
    and "DataSource_close ds lib w = (r, w1)"
  shows "is_initialized ds
    \<and> history w1 = history w @ [Dispose (eng_id eng)]
    \<and> DataSource_close ds lib w1
       = ((case command lib (history w1) (Dispose (eng_id eng)) of None \<Rightarrow> Inr () | Some e \<Rightarrow> Inl e),
          w1\<lparr>history := history w1 @ [Dispose (eng_id eng)]\<rparr>)
    \<and> DataSource_release_session ds session lib w1 = (Inr (), w1)
    \<and> take (Suc (length (history w1))) (history (snd (DataSource_get_session ds lib w1)))
       = history w1 @ [Connect (eng_id eng)]"
proof -
  have init: "is_initialized ds" using assms(1) by (simp add: is_initialized_def)
  then have guard: "check_initialization ds = Inr ()" by (simp add: check_initialization_def)
  have w1: "w1 = record_event (Dispose (eng_id eng)) w"
    using assms by (auto simp: DataSource_close_def requires_init_def guard close_body_def run_command_def)
  have again: "DataSource_close ds lib w1
       = ((case command lib (history w1) (Dispose (eng_id eng)) of None \<Rightarrow> Inr () | Some e \<Rightarrow> Inl e),
          w1\<lparr>history := history w1 @ [Dispose (eng_id eng)]\<rparr>)"
    using assms(1)
    by (simp add: DataSource_close_def requires_init_def guard close_body_def run_command_def record_event_def)
  have release: "DataSource_release_session ds session lib w1 = (Inr (), w1)"
    by (simp add: DataSource_release_session_def requires_init_def guard release_session_body_def)
  have session: "take (Suc (length (history w1))) (history (snd (DataSource_get_session ds lib w1)))
       = history w1 @ [Connect (eng_id eng)]"
    using assms(1)
    by (simp add: DataSource_get_session_def requires_init_def guard get_session_body_def Let_def
        SqlSession_init_def split: prod.splits sum.splits)
  from init w1 again release session show ?thesis by simp
qed

text \<open>
  C4, witness: the in-memory data source after its first \<open>close\<close>.
\<close>

theorem closed_source_still_initialized_witness:
  "is_initialized memory_source
   \<and> DataSource_close memory_source memory_library
       \<lparr>history = [Dispose 1], printed = []\<rparr>
     = (Inr (), \<lparr>history = [Dispose 1, Dispose 1], printed = []\<rparr>)
   \<and> DataSource_release_session memory_source open_session memory_library
       \<lparr>history = [Dispose 1], printed = []\<rparr>
     = (Inr (), \<lparr>history = [Dispose 1], printed = []\<rparr>)"
proof -
  have e: "ds_engine memory_source = Some \<lparr>eng_id = 1, pool = 2\<rparr>"
    by (simp add: memory_source_def)
  have c: "DataSource_close memory_source memory_library empty_world
       = (Inr (), \<lparr>history = [Dispose 1], printed = []\<rparr>)"
    by (simp add: DataSource_close_def requires_init_def check_initialization_def is_initialized_def
        close_body_def run_command_def record_event_def memory_source_def memory_library_def
        empty_world_def)
  from closed_source_still_initialized [OF e c, of open_session]
  show ?thesis by (simp add: memory_library_def)
qed

text \<open>
  C4, counterexample to the claim as stated: the data source that \<open>init\<close> builds on
  the in-memory library is closed twice, and the second \<open>close\<close> returns normally; so
  do \<open>release_session\<close> and \<open>get_session\<close> after the first.
\<close>

theorem second_close_succeeds_counterexample:
  "DataSource_init new_DataSource [CfgStr ''test://mem''] [] memory_library empty_world
     = (Inr (), memory_source,
        \<lparr>history = [CreateEngine [CfgStr ''test://mem'']
                      [(''connect_args'', CfgDict [(''connect_timeout'', CfgInt 10)])]],
         printed = []\<rparr>)
   \<and> DataSource_close memory_source memory_library empty_world
     = (Inr (), \<lparr>history = [Dispose 1], printed = []\<rparr>)
   \<and> DataSource_close memory_source memory_library \<lparr>history = [Dispose 1], printed = []\<rparr>
     = (Inr (), \<lparr>history = [Dispose 1, Dispose 1], printed = []\<rparr>)
   \<and> DataSource_release_session memory_source open_session memory_library
       \<lparr>history = [Dispose 1], printed = []\<rparr>
     = (Inr (), \<lparr>history = [Dispose 1], printed = []\<rparr>)
   \<and> DataSource_get_session memory_source memory_library \<lparr>history = [Dispose 1], printed = []\<rparr>
     = (Inr open_session,
        \<lparr>history = [Dispose 1, Connect 1, ExecutionOptions 3 False, NewSession 3], printed = []\<rparr>)"
  by (simp add: DataSource_init_def init_kwargs_def DataSource_close_def DataSource_get_session_def
      DataSource_release_session_def requires_init_def check_initialization_def is_initialized_def
      close_body_def release_session_body_def get_session_body_def SqlSession_init_def
      new_SqlSession_def new_DataSource_def Let_def
      run_command_def record_event_def memory_source_def open_session_def memory_library_def
      empty_world_def)

section \<open>C5: a data source that was never initialized\<close>

text \<open>
  C5. On a data source without an engine, which is what a data source is until
  \<open>init\<close> succeeds, \<open>get_session\<close>, \<open>release_session\<close> and \<open>close\<close> raise the
  \<open>DataSourceError\<close> that says the pool has not been initialized, and leave the world
  as it was: no call reaches the library.
\<close>

theorem uninitialized_source_guarded:
  assumes "\<not> is_initialized ds"
  shows "check_initialization ds = Inl not_initialized
    \<and> DataSource_get_session ds lib w = (Inl not_initialized, w)
    \<and> DataSource_release_session ds session lib w = (Inl not_initialized, w)
    \<and> DataSource_close ds lib w = (Inl not_initialized, w)
    \<and> not_initialized = DataSourceError
         ''database connection pool has not been initialized properly. Maybe something went wrong..'' []"
  using assms
  by (simp add: DataSource_get_session_def DataSource_release_session_def DataSource_close_def
      requires_init_def check_initialization_def not_initialized_def)

text \<open>
  C5, witness: the data source as constructed.
\<close>

theorem uninitialized_source_guarded_witness:
  "\<not> is_initialized new_DataSource
   \<and> DataSource_get_session new_DataSource memory_library empty_world = (Inl not_initialized, empty_world)
   \<and> DataSource_close new_DataSource memory_library empty_world = (Inl not_initialized, empty_world)"
proof -
  have h: "\<not> is_initialized new_DataSource"
    by (simp add: is_initialized_def new_DataSource_def)
  from uninitialized_source_guarded [OF h, of memory_library empty_world] h
  show ?thesis by simp
qed

section \<open>C6: the shape of what map returns\<close>

text \<open>
  C6, as amended. For an input with column list \<open>cols\<close> of length N and M rows of N
  values each, \<open>map\<close> returns M mappings in row order, for every M and N, zero
  included. The keys of the i-th mapping are the column names in first-seen order:
  exactly the N columns when the names are pairwise distinct, fewer than N keys when a
  name is repeated. A column name holds the value of the i-th row at the last position
  where that name occurs, so every column whose name does not occur again later is
  aligned with its own value.
\<close>

theorem map_rows_aligned:
  assumes "name_lists inp ''columns'' = Some cols"
    and "row_lists inp ''data'' = Some rows"
    and "\<forall>r \<in> set rows. length r = length cols"
  shows "\<exists>arr. AbstractDAO_map inp = Inr arr \<and> length arr = length rows
     \<and> (\<forall>i < length rows.
          map fst (arr ! i) = first_seen cols
        \<and> (if distinct cols then map fst (arr ! i) = cols else length (arr ! i) < length cols)
        \<and> (\<forall>j < length cols. cols ! j \<notin> set (drop (Suc j) cols)
              \<longrightarrow> dict_get (arr ! i) (cols ! j) = Some (rows ! i ! j)))"
proof -
  let ?arr = "map (\<lambda>r. py_dict (zip cols r)) rows"
  have row: "map fst (?arr ! i) = first_seen cols
        \<and> (if distinct cols then map fst (?arr ! i) = cols else length (?arr ! i) < length cols)
        \<and> (\<forall>j < length cols. cols ! j \<notin> set (drop (Suc j) cols)
              \<longrightarrow> dict_get (?arr ! i) (cols ! j) = Some (rows ! i ! j))"
    if i: "i < length rows" for i
  proof -
    have len: "length (rows ! i) = length cols" using assms(3) i by simp
    have keys: "map fst (?arr ! i) = first_seen cols"
      using i len by (simp add: keys_py_dict_zip)
    have count: "if distinct cols then map fst (?arr ! i) = cols else length (?arr ! i) < length cols"
    proof (cases "distinct cols")
      case True
      then show ?thesis using keys by (simp add: first_seen_distinct)
    next
      case False
      have "length (?arr ! i) = length (map fst (?arr ! i))" by simp
      also have "\<dots> = length (first_seen cols)" by (simp only: keys)
      finally show ?thesis using False length_first_seen_less [OF False] by simp
    qed
    have val: "dict_get (?arr ! i) (cols ! j) = Some (rows ! i ! j)"
      if j: "j < length cols" and last: "cols ! j \<notin> set (drop (Suc j) cols)" for j
    proof -
      have later: "\<forall>k. j < k \<and> k < length cols \<longrightarrow> cols ! k \<noteq> cols ! j"
      proof (intro allI impI)
        fix k assume k: "j < k \<and> k < length cols"
        then have "cols ! k = drop (Suc j) cols ! (k - Suc j)" by simp
        moreover have "k - Suc j < length (drop (Suc j) cols)" using k by (simp add: less_diff_conv2) arith
        ultimately have "cols ! k \<in> set (drop (Suc j) cols)" by (metis nth_mem)
        with last show "cols ! k \<noteq> cols ! j" by auto
      qed
      show ?thesis
        using i dict_from_zip_last [OF len [symmetric] j later]
        by (simp add: dict_get_def py_dict_def)
    qed
    from keys count val show ?thesis by blast
  qed
  have "AbstractDAO_map inp = Inr ?arr \<and> length ?arr = length rows"
    using AbstractDAO_map_eq [OF assms(1,2)] by simp
  with row show ?thesis by (intro exI [of _ ?arr]) blast
qed

text \<open>
  C6, witness: the two-column table of the scenario, second row, column \<open>name\<close>; and
  the same columns with no rows.
\<close>

theorem map_rows_aligned_witness:
  "(\<exists>arr. AbstractDAO_map scenario_result = Inr arr \<and> length arr = 2
     \<and> map fst (arr ! 1) = [''id'', ''name'']
     \<and> dict_get (arr ! 1) ''name'' = Some (CStr ''b''))
   \<and> AbstractDAO_map \<lparr>name_lists = [''columns'' \<mapsto> [''id'', ''name'']],
                      row_lists = [''data'' \<mapsto> []],
                      single_rows = Map.empty\<rparr> = Inr []"
proof -
  let ?cols = "[''id'', ''name'']"
  let ?rows = "[[CInt 1, CStr ''a''], [CInt 2, CStr ''b'']]"
  have c: "name_lists scenario_result ''columns'' = Some ?cols"
    and d: "row_lists scenario_result ''data'' = Some ?rows"
    by (simp_all add: scenario_result_def)
  have l: "\<forall>r \<in> set ?rows. length r = length ?cols" by simp
  from map_rows_aligned [OF c d l] obtain arr where
    arr: "AbstractDAO_map scenario_result = Inr arr" "length arr = length ?rows"
    and rows: "\<forall>i < length ?rows.
          map fst (arr ! i) = first_seen ?cols
        \<and> (if distinct ?cols then map fst (arr ! i) = ?cols else length (arr ! i) < length ?cols)
        \<and> (\<forall>j < length ?cols. ?cols ! j \<notin> set (drop (Suc j) ?cols)
              \<longrightarrow> dict_get (arr ! i) (?cols ! j) = Some (?rows ! i ! j))"
    by blast
  from rows have r1: "map fst (arr ! 1) = first_seen ?cols
        \<and> (\<forall>j < length ?cols. ?cols ! j \<notin> set (drop (Suc j) ?cols)
              \<longrightarrow> dict_get (arr ! 1) (?cols ! j) = Some (?rows ! 1 ! j))"
    by simp
  then have k: "map fst (arr ! 1) = ?cols" by simp
  from r1 have "?cols ! 1 \<notin> set (drop (Suc 1) ?cols)
      \<longrightarrow> dict_get (arr ! 1) (?cols ! 1) = Some (?rows ! 1 ! 1)"
    by (metis One_nat_def Suc_1 length_Cons lessI list.size(3))
  then have v: "dict_get (arr ! 1) ''name'' = Some (CStr ''b'')" by simp
  let ?empty = "\<lparr>name_lists = [''columns'' \<mapsto> ?cols],
                 row_lists = [''data'' \<mapsto> []], single_rows = Map.empty\<rparr>"
  have "\<exists>arr. AbstractDAO_map ?empty = Inr arr \<and> length arr = length ([] :: row list)"
    using map_rows_aligned [of ?empty ?cols "[]"] by auto
  then have e: "AbstractDAO_map ?empty = Inr []" by auto
  from arr k v e show ?thesis by auto
qed

text \<open>
  C6, counterexample to the claim as stated: two columns both named \<open>a\<close> (as a join
  of two tables produces) and the row \<open>(1, 2)\<close>. The mapping has one key, not
  two, and \<open>a\<close> holds 2, which is not the value at position 0.
\<close>

theorem map_duplicate_columns_counterexample:
  "AbstractDAO_map \<lparr>name_lists = [''columns'' \<mapsto> [''a'', ''a'']],
                    row_lists = [''data'' \<mapsto> [[CInt 1, CInt 2]]],
                    single_rows = Map.empty\<rparr> = Inr [[(''a'', CInt 2)]]
   \<and> length [(''a'', CInt 2)] \<noteq> length [''a'', ''a'']
   \<and> dict_get [(''a'', CInt 2)] ([''a'', ''a''] ! 0) \<noteq> Some ([CInt 1, CInt 2] ! 0)"
  by (simp add: AbstractDAO_map_def py_dict_def dict_get_def)

section \<open>C7: hash_map groups the rows of map\<close>

text \<open>
  C7, as amended. When \<open>map\<close> succeeds and every mapped row has the key column,
  \<open>hash_map\<close> succeeds; its keys are the key values in first-seen order, without
  repetition; the bucket of a key holds exactly the mapped rows with that key value, in
  row order, and is not empty; and the buckets concatenated in that order hold the
  rows of \<open>map\<close> with the same multiplicities, regrouped by key rather than in the
  original order.
\<close>

theorem hash_map_partitions:
  assumes "AbstractDAO_map inp = Inr arr"
    and "\<forall>r \<in> set arr. dict_get r key_column \<noteq> None"
  shows "\<exists>res. AbstractDAO_hash_map inp key_column = Inr res
     \<and> map fst res = first_seen (map (\<lambda>r. the (dict_get r key_column)) arr)
     \<and> distinct (map fst res)
     \<and> (\<forall>kb \<in> set res. snd kb = filter (\<lambda>r. dict_get r key_column = Some (fst kb)) arr \<and> snd kb \<noteq> [])
     \<and> mset (concat (map snd res)) = mset arr"
proof -
  from hash_loop_inv [OF assms(2), of "[]"] obtain res where
    r1: "hash_loop key_column arr [] = Inr res" and r2: "distinct (map fst res)"
    and r3: "map fst res = first_seen (map (\<lambda>r. the (dict_get r key_column)) arr)"
    and r4: "\<forall>k. (case map_of res k of None \<Rightarrow> [] | Some b \<Rightarrow> b)
                = filter (\<lambda>r. dict_get r key_column = Some k) arr"
    and r5: "mset (concat (map snd res)) = mset arr"
    by auto
  have buckets: "snd kb = filter (\<lambda>r. dict_get r key_column = Some (fst kb)) arr \<and> snd kb \<noteq> []"
    if kb: "kb \<in> set res" for kb
  proof -
    have m: "map_of res (fst kb) = Some (snd kb)" using r2 kb by simp
    with r4 have eq: "snd kb = filter (\<lambda>r. dict_get r key_column = Some (fst kb)) arr"
      by (metis option.simps(5))
    have "fst kb \<in> set (map fst res)" using kb by simp
    then have "fst kb \<in> set (map (\<lambda>r. the (dict_get r key_column)) arr)"
      by (simp only: r3 set_first_seen)
    then obtain r where r: "r \<in> set arr" "fst kb = the (dict_get r key_column)" by auto
    with assms(2) have "dict_get r key_column = Some (fst kb)" by auto
    with r(1) have "filter (\<lambda>r. dict_get r key_column = Some (fst kb)) arr \<noteq> []"
      by (auto simp: filter_empty_conv)
    with eq show ?thesis by simp
  qed
  have "AbstractDAO_hash_map inp key_column = Inr res"
    using r1 assms(1) by (simp add: AbstractDAO_hash_map_def)
  with r2 r3 r5 buckets show ?thesis
    by (intro exI [of _ res]) blast
qed

text \<open>
  C7, witness: three rows with the keys 1, 2, 1.
\<close>

theorem hash_map_partitions_witness:
  "\<exists>res. AbstractDAO_hash_map regrouped_result ''id'' = Inr res
     \<and> map fst res = [CInt 1, CInt 2]
     \<and> mset (concat (map snd res))
         = mset [[(''id'', CInt 1), (''name'', CStr ''a'')],
                 [(''id'', CInt 2), (''name'', CStr ''b'')],
                 [(''id'', CInt 1), (''name'', CStr ''c'')]]"
proof -
  let ?arr = "[[(''id'', CInt 1), (''name'', CStr ''a'')],
               [(''id'', CInt 2), (''name'', CStr ''b'')],
               [(''id'', CInt 1), (''name'', CStr ''c'')]]"
  have m: "AbstractDAO_map regrouped_result = Inr ?arr"
    by (simp add: regrouped_result_def AbstractDAO_map_def py_dict_def)
  have k: "\<forall>r \<in> set ?arr. dict_get r ''id'' \<noteq> None"
    by (simp add: dict_get_def)
  from hash_map_partitions [OF m k] obtain res where
    "AbstractDAO_hash_map regrouped_result ''id'' = Inr res"
    "map fst res = first_seen (map (\<lambda>r. the (dict_get r ''id'')) ?arr)"
    "mset (concat (map snd res)) = mset ?arr"
    by blast
  then show ?thesis
    by (intro exI [of _ res]) (simp add: dict_get_def)
qed

text \<open>
  C7, counterexample to the claim as stated: with the keys 1, 2, 1 the buckets
  concatenated are the rows in the order first, third, second, which is not the output
  of \<open>map\<close>.
\<close>

theorem hash_map_concat_counterexample:
  "AbstractDAO_map regrouped_result
     = Inr [[(''id'', CInt 1), (''name'', CStr ''a'')],
            [(''id'', CInt 2), (''name'', CStr ''b'')],
            [(''id'', CInt 1), (''name'', CStr ''c'')]]
   \<and> AbstractDAO_hash_map regrouped_result ''id''
     = Inr [(CInt 1, [[(''id'', CInt 1), (''name'', CStr ''a'')],
                      [(''id'', CInt 1), (''name'', CStr ''c'')]]),
            (CInt 2, [[(''id'', CInt 2), (''name'', CStr ''b'')]])]
   \<and> concat (map snd [(CInt 1, [[(''id'', CInt 1), (''name'', CStr ''a'')],
                                [(''id'', CInt 1), (''name'', CStr ''c'')]]),
                      (CInt 2, [[(''id'', CInt 2), (''name'', CStr ''b'')]])])
     \<noteq> [[(''id'', CInt 1), (''name'', CStr ''a'')],
         [(''id'', CInt 2), (''name'', CStr ''b'')],
         [(''id'', CInt 1), (''name'', CStr ''c'')]]"
  by (simp add: regrouped_result_def AbstractDAO_hash_map_def AbstractDAO_map_def py_dict_def dict_get_def)

section \<open>C8: leaving the scope of a session\<close>

text \<open>
  C8. \<open>__exit__\<close> is \<open>close\<close> run after the attempt to commit, in the world that
  attempt leaves, with the error of a failed commit printed and not raised. On a session
  with an engine session the library sees \<open>commit\<close> and then \<open>close\<close>, whatever
  happened before and whatever \<open>commit\<close> answers, and the result of \<open>__exit__\<close> is
  the result of closing.
\<close>

theorem exit_commits_then_closes:
  "SqlSession_exit s lib w
     = SqlSession_close s lib
         (case SqlSession_commit s lib w of (Inl e, w1) \<Rightarrow> py_print e w1 | (Inr u, w1) \<Rightarrow> w1)
   \<and> take 2 (drop (length (history w))
        (history (snd (SqlSession_exit (s\<lparr>s_session := Some h\<rparr>) lib w))))
       = [SessCommit h, SessClose h]
   \<and> printed (snd (SqlSession_exit (s\<lparr>s_session := Some h\<rparr>) lib w))
       = printed w @ (case command lib (history w) (SessCommit h) of None \<Rightarrow> [] | Some e \<Rightarrow> [e])
   \<and> fst (SqlSession_exit (s\<lparr>s_session := Some h\<rparr>) lib w)
       = (case command lib (history w @ [SessCommit h]) (SessClose h) of
            Some e \<Rightarrow> Inl e
          | None \<Rightarrow>
              (case s_connection s of
                 None \<Rightarrow> Inl (none_has_no ''close'')
               | Some c \<Rightarrow>
                   (case command lib (history w @ [SessCommit h, SessClose h]) (ConnClose (conn_id c)) of
                      Some e \<Rightarrow> Inl e
                    | None \<Rightarrow> Inr ())))"
  by (simp add: SqlSession_exit_def SqlSession_close_def SqlSession_commit_def run_command_def
      record_event_def py_print_def split: prod.splits sum.splits option.splits)

section \<open>C9: the configuration init passes on\<close>

text \<open>
  C9, as amended. \<open>init\<close> calls \<open>create_engine\<close> with the positional arguments
  unchanged and with the keyword arguments in which \<open>connect_args\<close> is exactly
  \<open>{connect_timeout: 10}\<close>, replacing whatever the caller supplied under that key;
  every other keyword argument is passed unchanged, in the caller's order.
\<close>

theorem init_passes_configuration:
  assumes "k \<noteq> ''connect_args''"
  shows "history (snd (snd (DataSource_init ds args kw lib w)))
       = history w @ [CreateEngine args (init_kwargs kw)]
    \<and> fst (DataSource_init ds args kw lib w)
       = (case create_engine lib (history w) args (init_kwargs kw) of
            Inl e \<Rightarrow> Inl e | Inr eng \<Rightarrow> Inr ())
    \<and> dict_get (init_kwargs kw) ''connect_args'' = Some (CfgDict [(''connect_timeout'', CfgInt 10)])
    \<and> dict_get (init_kwargs kw) k = dict_get kw k
    \<and> map fst (init_kwargs kw)
       = (if ''connect_args'' \<in> set (map fst kw) then map fst kw else map fst kw @ [''connect_args''])"
  using assms
  by (simp add: DataSource_init_def Let_def init_kwargs_def dict_get_def map_of_dict_set
      keys_dict_set split: sum.splits)

text \<open>
  C9, witness: the keyword argument \<open>echo\<close>.
\<close>

theorem init_passes_configuration_witness:
  "dict_get (init_kwargs [(''echo'', CfgBool True)]) ''echo'' = Some (CfgBool True)
   \<and> dict_get (init_kwargs [(''echo'', CfgBool True)]) ''connect_args''
       = Some (CfgDict [(''connect_timeout'', CfgInt 10)])
   \<and> history (snd (snd (DataSource_init new_DataSource [CfgStr ''test://mem'']
        [(''echo'', CfgBool True)] memory_library empty_world)))
       = [CreateEngine [CfgStr ''test://mem'']
           [(''echo'', CfgBool True), (''connect_args'', CfgDict [(''connect_timeout'', CfgInt 10)])]]"
  using init_passes_configuration [of "''echo''" new_DataSource "[CfgStr ''test://mem'']"
      "[(''echo'', CfgBool True)]" memory_library empty_world]
  by (simp add: dict_get_def init_kwargs_def empty_world_def)

text \<open>
  C9, counterexample to the claim as stated: the caller's connection options
  \<open>{sslmode: require}\<close> do not reach \<open>create_engine\<close>.
\<close>

theorem init_replaces_connect_args_counterexample:
  "history (snd (snd (DataSource_init new_DataSource [CfgStr ''postgresql://db'']
      [(''connect_args'', CfgDict [(''sslmode'', CfgStr ''require'')]), (''echo'', CfgBool True)]
      memory_library empty_world)))
     = [CreateEngine [CfgStr ''postgresql://db'']
         [(''connect_args'', CfgDict [(''connect_timeout'', CfgInt 10)]), (''echo'', CfgBool True)]]
   \<and> dict_get [(''connect_timeout'', CfgInt 10)] ''sslmode'' \<noteq> Some (CfgStr ''require'')"
  by (simp add: DataSource_init_def Let_def init_kwargs_def record_event_def empty_world_def
      memory_library_def dict_get_def)

section \<open>C10: a session that was never bound\<close>

text \<open>
  C10. On a session as constructed, connection and engine session are \<open>None\<close>:
  \<open>is_available\<close> is false, \<open>check_availability\<close> raises the \<open>DataSourceError\<close>,
  and \<open>close\<close>, \<open>commit\<close> and \<open>rollback\<close> raise \<open>AttributeError\<close> without
  reaching the library.
\<close>

theorem fresh_session_not_usable:
  "s_connection new_SqlSession = None \<and> s_session new_SqlSession = None
   \<and> \<not> is_available new_SqlSession
   \<and> check_availability new_SqlSession = Inl unavailable
   \<and> SqlSession_close new_SqlSession lib w = (Inl (none_has_no ''close''), w)
   \<and> SqlSession_commit new_SqlSession lib w = (Inl (none_has_no ''commit''), w)
   \<and> SqlSession_rollback new_SqlSession lib w = (Inl (none_has_no ''rollback''), w)"
  by (simp add: new_SqlSession_def is_available_def check_availability_def SqlSession_close_def
      SqlSession_commit_def SqlSession_rollback_def)

end
